theory Spec2Isabelle
  imports Complex_Main
begin

section \<open>RallyCoach strategy engine: scoring engine and recommendation generator\<close>

text \<open>
  The development embeds two modules of \<^verbatim>\<open>rallycoach/src/lib/strategy_engine\<close>:
  \<^verbatim>\<open>scoring-engine.ts\<close> and \<^verbatim>\<open>recommendation-generator.ts\<close>.

  Conventions of the embedding.
  \<^item> A TypeScript \<^verbatim>\<open>number\<close> that carries a measurement is a \<open>real\<close>: the model computes
    with exact finite numbers, so \<^verbatim>\<open>NaN\<close>, infinities and binary rounding are outside it.
    Zone ids and shot indices are \<open>int\<close>.
  \<^item> A string union (\<^verbatim>\<open>ShotType\<close>, \<^verbatim>\<open>RallyPhase\<close>, ...) is a datatype.
  \<^item> A lookup table with a \<^verbatim>\<open>??\<close> default is a partial map; the default is written out.
  \<^item> The modules \<^verbatim>\<open>constants.ts\<close>, \<^verbatim>\<open>shot-segmentation.ts\<close>, \<^verbatim>\<open>rally-state-machine.ts\<close>
    and \<^verbatim>\<open>feature-extraction.ts\<close> are imported by the two modules but their text is not
    available. Their constants are the fields of the record \<open>engine_constants\<close>, their
    functions the fields of the record \<open>engine_imports\<close>; every function below takes
    them as arguments.
  \<^item> \<^verbatim>\<open>Date.now()\<close>, \<^verbatim>\<open>new Date()\<close> and \<^verbatim>\<open>Math.random()\<close> read a \<open>world\<close> that is passed
    through the functions that use them.
  \<^item> \<^verbatim>\<open>console.log\<close> output of \<^verbatim>\<open>logDebug\<close> is not part of any returned value and is left out.
\<close>

subsection \<open>Data model (types.ts, as used by the two modules and their tests)\<close>

datatype shot_type = Clear | Drop | Smash | Drive | Net | Lift | Serve | Push | Unknown

datatype rally_phase = Attack | Neutral | Defense

datatype initiative = Us | Them | Unknown_initiative

datatype player_side = Near | Far

datatype rationale_type =
  Movement_pressure | Open_court | Risk_reduction | Angle_denial | Recovery_time

datatype error = TypeError

record xy =
  x_of :: real
  y_of :: real

record trajectory_point = xy +
  timestamp :: real

record path_point = xy +
  z_of :: real

record rally_state =
  phase :: rally_phase
  initiative_of :: initiative
  pressure :: real
  openCourtZones :: "int list"
  state_timestamp :: real

record shot_segment =
  shotIndex :: int
  type_shot :: shot_type
  startTime :: real
  endTime :: real
  trajectorySlice :: "trajectory_point list"
  player :: player_side

record shot_features =
  contactZone :: int
  landingZone :: int
  shuttleSpeedProxy :: real
  shuttleHeightProxy :: real
  opponentMovementDistance :: real
  opponentDirectionChange :: real
  recoveryQuality :: real
  rallyState :: rally_state

record recommendation_rationale =
  type_rationale :: rationale_type
  description :: string
  impact :: real

record shot_recommendation =
  id_str :: string
  shotType :: shot_type
  targetZone :: int
  pathPolyline :: "path_point list"
  score :: real
  rationale :: "recommendation_rationale list"
  confidence :: real

record scoring_weights =
  movementPressure :: real
  openCourt :: real
  riskUnderPressure :: real
  angleExposure :: real

subsection \<open>Constants (constants.ts)\<close>

text \<open>
  The values of \<^verbatim>\<open>constants.ts\<close> are parameters. \<open>PRESSURE_THRESHOLDS\<close> is an object with
  the two fields the code reads, \<^verbatim>\<open>attack\<close> and \<^verbatim>\<open>defense\<close>.
\<close>

record engine_constants =
  DEBUG_FLAG :: bool
  ENGINE_VERSION :: string
  DEFAULT_SCORING_WEIGHTS :: scoring_weights
  BASE_SCORE :: real
  SHOT_RISK_LEVELS :: "shot_type \<rightharpoonup> real"
  ZONE_DISTANCES :: "int \<rightharpoonup> (int \<rightharpoonup> real)"
  ANGLE_RISK_BY_ZONE :: "int \<rightharpoonup> real"
  PRESSURE_THRESHOLDS_attack :: real
  PRESSURE_THRESHOLDS_defense :: real
  VIABLE_SHOTS_BY_PHASE :: "rally_phase \<rightharpoonup> shot_type list"
  SHOT_HEIGHT_PROXY :: "shot_type \<rightharpoonup> real"

text \<open>
  Modelled from the spec: the constants \<^verbatim>\<open>MIN_SCORE\<close> and \<^verbatim>\<open>MAX_SCORE\<close> of \<^verbatim>\<open>constants.ts\<close>
  are missing; the specification says the score is "clamped to [0,100]".
\<close>

definition MIN_SCORE :: real where
  "MIN_SCORE = 0"

definition MAX_SCORE :: real where
  "MAX_SCORE = 100"

subsection \<open>JavaScript primitives\<close>

text \<open>\<^verbatim>\<open>Math.round\<close> rounds to the nearest integer, a half going up.\<close>

definition Math_round :: "real \<Rightarrow> real" where
  "Math_round v = of_int \<lfloor>v + 1 / 2\<rfloor>"

subsection \<open>Scoring engine (scoring-engine.ts)\<close>

definition calculateMovementPressureScore ::
  "engine_constants \<Rightarrow> int \<Rightarrow> shot_features \<Rightarrow> real" where
  "calculateMovementPressureScore c tz features =
     (let zoneDistance =
            (case ZONE_DISTANCES c (landingZone features) of
               None \<Rightarrow> 0.5
             | Some row \<Rightarrow> (case row tz of None \<Rightarrow> 0.5 | Some d \<Rightarrow> d));
          momentumFactor = opponentDirectionChange features / pi;
          s = (zoneDistance * 0.7) + (momentumFactor * 0.3)
      in min 1 (max 0 s))"

definition calculateOpenCourtScore :: "int \<Rightarrow> rally_state \<Rightarrow> real" where
  "calculateOpenCourtScore tz rs =
     (if tz \<in> set (openCourtZones rs) then
        (let cornerBonus = (if tz \<in> set [0, 2, 6, 8] then 0.2 else 0)
         in min 1 (0.8 + cornerBonus))
      else if list_ex (\<lambda>openZone. let diff = \<bar>tz - openZone\<bar> in diff = 1 \<or> diff = 3)
                (openCourtZones rs)
      then 0.4
      else 0.1)"

definition assessShotRisk :: "engine_constants \<Rightarrow> shot_type \<Rightarrow> rally_state \<Rightarrow> real" where
  "assessShotRisk c st rs =
     (let baseRisk = (case SHOT_RISK_LEVELS c st of None \<Rightarrow> 0.5 | Some r \<Rightarrow> r);
          pressureMultiplier = 1 + (pressure rs * 0.5);
          phaseMultiplier =
            (if phase rs = Defense then
               (if st \<in> set [Smash, Drop, Net] then 1.3 else 1)
             else if phase rs = Attack then
               (if st \<in> set [Clear, Lift] then 0.8 else 1)
             else 1);
          adjustedRisk = baseRisk * pressureMultiplier * phaseMultiplier
      in min 1 (max 0 adjustedRisk))"

definition calculateAngleExposure :: "engine_constants \<Rightarrow> int \<Rightarrow> shot_type \<Rightarrow> real" where
  "calculateAngleExposure c tz st =
     (let baseAngleRisk = (case ANGLE_RISK_BY_ZONE c tz of None \<Rightarrow> 0.5 | Some r \<Rightarrow> r);
          m1 = (if st \<in> set [Drop, Net] \<and> tz \<in> set [1, 4] then 1.3 else 1);
          shotTypeMultiplier = (if st = Clear \<and> tz \<in> set [6, 8] then 0.7 else m1);
          angleRisk = baseAngleRisk * shotTypeMultiplier
      in min 1 (max 0 angleRisk))"

definition calculateConfidence ::
  "engine_constants \<Rightarrow> shot_type \<Rightarrow> rally_state \<Rightarrow> shot_features \<Rightarrow> real" where
  "calculateConfidence c st rs features =
     (let c0 = 0.75;
          c1 = (if phase rs = Attack \<and> st \<in> set [Smash, Drop, Net] then c0 + 0.1
                else if phase rs = Defense \<and> st \<in> set [Clear, Lift] then c0 + 0.1
                else c0);
          c2 = (if pressure rs > PRESSURE_THRESHOLDS_defense c then c1 - 0.1 else c1);
          c3 = (if recoveryQuality features < 0.3 then c2 + 0.05 else c2)
      in min 1 (max 0.5 c3))"

definition buildRationale ::
  "engine_constants \<Rightarrow> int \<Rightarrow> shot_type \<Rightarrow> shot_features \<Rightarrow> rally_state \<Rightarrow>
   real \<Rightarrow> real \<Rightarrow> real \<Rightarrow> real \<Rightarrow> recommendation_rationale list" where
  "buildRationale c tz st features rs movementScore openCourtScore riskScore angleRisk =
     (if movementScore > 0.5 then
        [\<lparr>type_rationale = Movement_pressure,
          description = (if movementScore > 0.7
                         then ''Forces significant opponent movement''
                         else ''Increases opponent movement distance''),
          impact = movementScore\<rparr>]
      else [])
     @
     (if openCourtScore > 0.5 then
        [\<lparr>type_rationale = Open_court,
          description = (if openCourtScore > 0.7
                         then ''Targets undefended court area''
                         else ''Exploits partial court opening''),
          impact = openCourtScore\<rparr>]
      else [])
     @
     (if pressure rs > PRESSURE_THRESHOLDS_defense c \<and> riskScore > 0.5 then
        [\<lparr>type_rationale = Risk_reduction,
          description = ''Higher risk shot under pressure situation'',
          impact = - riskScore\<rparr>]
      else if riskScore < 0.3 \<and> phase rs = Defense then
        [\<lparr>type_rationale = Risk_reduction,
          description = ''Safe shot to reset the rally'',
          impact = 1 - riskScore\<rparr>]
      else [])
     @
     (if angleRisk > 0.4 then
        [\<lparr>type_rationale = Angle_denial,
          description = (if angleRisk > 0.6
                         then ''May expose court to counter-attack angles''
                         else ''Moderate angle exposure to opponent''),
          impact = - angleRisk\<rparr>]
      else [])
     @
     (if st \<in> set [Clear, Lift] \<and> recoveryQuality features > 0.4 then
        [\<lparr>type_rationale = Recovery_time,
          description = ''Provides time to recover court position'',
          impact = 0.5\<rparr>]
      else [])"

definition scoreRecommendation ::
  "engine_constants \<Rightarrow> shot_recommendation \<Rightarrow> shot_features \<Rightarrow> rally_state \<Rightarrow>
   scoring_weights \<Rightarrow> shot_recommendation" where
  "scoreRecommendation c recommendation features rs weights =
     (let s0 = BASE_SCORE c;
          movementScore = calculateMovementPressureScore c (targetZone recommendation) features;
          openCourtScore = calculateOpenCourtScore (targetZone recommendation) rs;
          riskScore = assessShotRisk c (shotType recommendation) rs;
          angleRisk = calculateAngleExposure c (targetZone recommendation) (shotType recommendation);
          s1 = s0 + movementScore * movementPressure weights;
          s2 = s1 + openCourtScore * openCourt weights;
          s3 = (if pressure rs > PRESSURE_THRESHOLDS_attack c
                then s2 - riskScore * riskUnderPressure weights else s2);
          s4 = s3 - angleRisk * angleExposure weights;
          s5 = min MAX_SCORE (max MIN_SCORE s4);
          rationale' = buildRationale c (targetZone recommendation) (shotType recommendation)
                         features rs movementScore openCourtScore riskScore angleRisk;
          confidence' = calculateConfidence c (shotType recommendation) rs features
      in recommendation\<lparr>score := Math_round s5,
                         rationale := rationale',
                         confidence := confidence'\<rparr>)"

text \<open>
  \<^verbatim>\<open>Array.prototype.sort\<close> is stable; with the comparator \<^verbatim>\<open>b.score - a.score\<close> it is the
  stable sort by descending score, here the insertion sort \<open>sort_key\<close> on the negated score.
\<close>

definition scoreAndRankRecommendations ::
  "engine_constants \<Rightarrow> shot_recommendation list \<Rightarrow> shot_features \<Rightarrow> rally_state \<Rightarrow>
   scoring_weights \<Rightarrow> shot_recommendation list" where
  "scoreAndRankRecommendations c recommendations features rs weights =
     (let scored = map (\<lambda>r. scoreRecommendation c r features rs weights) recommendations
      in sort_key (\<lambda>r. - score r) scored)"

subsection \<open>The world read by the generator\<close>

text \<open>
  \<open>clock w k\<close> is the \<open>k\<close>-th reading of the system clock (milliseconds), \<open>random36 w k\<close>
  the \<open>k\<close>-th value of \<^verbatim>\<open>Math.random().toString(36).substr(2, 9)\<close>, and \<open>isoString w\<close> the
  rendering \<^verbatim>\<open>Date.prototype.toISOString\<close>. \<open>reads\<close> and \<open>draws\<close> count the readings made.
\<close>

record world =
  clock :: "nat \<Rightarrow> int"
  random36 :: "nat \<Rightarrow> string"
  isoString :: "int \<Rightarrow> string"
  reads :: nat
  draws :: nat

definition Date_now :: "world \<Rightarrow> int \<times> world" where
  "Date_now w = (clock w (reads w), w\<lparr>reads := Suc (reads w)\<rparr>)"

definition Math_random_suffix :: "world \<Rightarrow> string \<times> world" where
  "Math_random_suffix w = (random36 w (draws w), w\<lparr>draws := Suc (draws w)\<rparr>)"

definition new_Date_toISOString :: "world \<Rightarrow> string \<times> world" where
  "new_Date_toISOString w = (isoString w (clock w (reads w)), w\<lparr>reads := Suc (reads w)\<rparr>)"

text \<open>Template literals: decimal rendering of integers, the literals of the string unions.\<close>

fun show_nat :: "nat \<Rightarrow> string" where
  "show_nat n =
     (if n < 10 then [''0123456789'' ! n]
      else show_nat (n div 10) @ [''0123456789'' ! (n mod 10)])"

declare show_nat.simps [simp del]

definition show_int :: "int \<Rightarrow> string" where
  "show_int i = (if i < 0 then ''-'' @ show_nat (nat (- i)) else show_nat (nat i))"

fun shotTypeName :: "shot_type \<Rightarrow> string" where
  "shotTypeName Clear = ''clear''"
| "shotTypeName Drop = ''drop''"
| "shotTypeName Smash = ''smash''"
| "shotTypeName Drive = ''drive''"
| "shotTypeName Net = ''net''"
| "shotTypeName Lift = ''lift''"
| "shotTypeName Serve = ''serve''"
| "shotTypeName Push = ''push''"
| "shotTypeName Unknown = ''unknown''"

fun phaseName :: "rally_phase \<Rightarrow> string" where
  "phaseName Attack = ''attack''"
| "phaseName Neutral = ''neutral''"
| "phaseName Defense = ''defense''"

fun join_with :: "string \<Rightarrow> string list \<Rightarrow> string" where
  "join_with sep [] = []"
| "join_with sep [a] = a"
| "join_with sep (a # b # rest) = a @ sep @ join_with sep (b # rest)"

text \<open>A loop that pushes one value per element while it reads the world.\<close>

fun map_world :: "('a \<Rightarrow> world \<Rightarrow> 'b \<times> world) \<Rightarrow> 'a list \<Rightarrow> world \<Rightarrow> 'b list \<times> world" where
  "map_world f [] w = ([], w)"
| "map_world f (a # rest) w =
     (let (b, w1) = f a w;
          (bs, w2) = map_world f rest w1
      in (b # bs, w2))"

subsection \<open>Result types of the generator\<close>

record per_shot_analysis =
  shot_of :: shot_segment
  features_of :: shot_features
  recommendations :: "shot_recommendation list"

record rally_summary =
  totalShots :: nat
  dominantPhase :: rally_phase
  averagePressure :: real
  keyMoments :: "nat list"
  winner :: "string option"

record analysis_metadata =
  processedAt :: string
  engineVersion :: string
  processingTimeMs :: int
  debugLogs :: "string list option"

record rally_analysis_result =
  sessionId :: string
  rallyId :: string
  shots_of :: "per_shot_analysis list"
  summary_of :: rally_summary
  metadata_of :: analysis_metadata

subsection \<open>Imported functions\<close>

text \<open>
  Modelled from the spec: the functions of \<^verbatim>\<open>shot-segmentation.ts\<close>,
  \<^verbatim>\<open>rally-state-machine.ts\<close> and \<^verbatim>\<open>feature-extraction.ts\<close> that the generator calls are
  missing. They are parameters, and functions of their arguments alone: the specification
  requires every component to be "stateless between calls", with "no shared mutable
  state, caches, or global counters", and to complete on every input. An optional
  argument is an \<open>option\<close>. \<open>segmentShots_body\<close> is the segmenter on a trajectory of
  two or more points.
\<close>

record engine_imports =
  segmentShots_body :: "trajectory_point list \<Rightarrow> real list option \<Rightarrow> shot_segment list"
  computeRallyState :: "shot_segment list \<Rightarrow> int \<Rightarrow> xy option \<Rightarrow> rally_state"
  computeAllRallyStates ::
    "shot_segment list \<Rightarrow> trajectory_point list option \<Rightarrow> rally_state list"
  extractShotFeatures ::
    "shot_segment \<Rightarrow> rally_state \<Rightarrow> shot_segment option \<Rightarrow> trajectory_point list option \<Rightarrow>
     shot_features"
  extractAllShotFeatures ::
    "shot_segment list \<Rightarrow> rally_state list \<Rightarrow> trajectory_point list option \<Rightarrow>
     trajectory_point list option \<Rightarrow> shot_features list"
  zoneToPosition :: "int \<Rightarrow> xy"
  getDominantPhase :: "rally_state list \<Rightarrow> rally_phase"
  getAveragePressure :: "rally_state list \<Rightarrow> real"
  findKeyMoments :: "rally_state list \<Rightarrow> nat list"

text \<open>
  Modelled from the spec: \<^verbatim>\<open>segmentShots\<close> of \<^verbatim>\<open>shot-segmentation.ts\<close> is missing. The
  specification says: "returns \<^verbatim>\<open>[]\<close> when trajectory has fewer than 2 points"; what it
  returns otherwise is the parameter \<open>segmentShots_body\<close>.
\<close>

definition segmentShots ::
  "engine_imports \<Rightarrow> trajectory_point list \<Rightarrow> real list option \<Rightarrow> shot_segment list" where
  "segmentShots d trajectory poseTimestamps =
     (if length trajectory < 2 then [] else segmentShots_body d trajectory poseTimestamps)"

subsection \<open>Recommendation generator (recommendation-generator.ts)\<close>

definition generateRecId :: "shot_type \<Rightarrow> int \<Rightarrow> world \<Rightarrow> string \<times> world" where
  "generateRecId st tz w =
     (let (now, w1) = Date_now w;
          (rnd, w2) = Math_random_suffix w1
      in (''rec-'' @ shotTypeName st @ ''-'' @ show_int tz @ ''-'' @ show_int now @ ''-'' @ rnd,
          w2))"

definition generateShotPath ::
  "engine_constants \<Rightarrow> engine_imports \<Rightarrow> xy \<Rightarrow> int \<Rightarrow> shot_type \<Rightarrow> path_point list" where
  "generateShotPath c d contactPoint tz st =
     (let target = zoneToPosition d tz;
          heightProxy = (case SHOT_HEIGHT_PROXY c st of None \<Rightarrow> 0.5 | Some h \<Rightarrow> h);
          numPoints = (5::nat)
      in [\<lparr>x_of = x_of contactPoint, y_of = y_of contactPoint, z_of = 0.5\<rparr>]
         @ map (\<lambda>i. let t = real i / real numPoints;
                        px = x_of contactPoint + (x_of target - x_of contactPoint) * t;
                        py = y_of contactPoint + (y_of target - y_of contactPoint) * t;
                        heightBase = 0.3;
                        heightPeak = heightProxy * 3;
                        pz = heightBase + heightPeak * 4 * t * (1 - t)
                    in \<lparr>x_of = px, y_of = py, z_of = pz\<rparr>)
               [1..<numPoints]
         @ [\<lparr>x_of = x_of target, y_of = y_of target, z_of = 0.2\<rparr>])"

definition getViableShotTypes ::
  "engine_constants \<Rightarrow> rally_phase \<Rightarrow> int \<Rightarrow> error + shot_type list" where
  "getViableShotTypes c ph cz =
     (case (case VIABLE_SHOTS_BY_PHASE c ph of
              Some l \<Rightarrow> Some l
            | None \<Rightarrow> VIABLE_SHOTS_BY_PHASE c Neutral) of
        None \<Rightarrow> Inl TypeError
      | Some phaseShotTypes \<Rightarrow>
          (let depthIdx = cz div 3
           in if depthIdx = 2 then
                Inr (filter (\<lambda>s. s \<in> set [Clear, Smash, Drop, Drive, Lift]) phaseShotTypes)
              else if depthIdx = 1 then
                Inr (filter (\<lambda>s. s \<in> set [Drive, Drop, Net, Clear, Push]) phaseShotTypes)
              else
                Inr (filter (\<lambda>s. s \<in> set [Net, Push, Lift, Drive]) phaseShotTypes)))"

definition buildCandidateRecommendation ::
  "engine_constants \<Rightarrow> engine_imports \<Rightarrow> shot_type \<Rightarrow> int \<Rightarrow> xy \<Rightarrow> world \<Rightarrow>
   shot_recommendation \<times> world" where
  "buildCandidateRecommendation c d st tz contactPoint w =
     (let path = generateShotPath c d contactPoint tz st;
          (i, w1) = generateRecId st tz w
      in (\<lparr>id_str = i, shotType = st, targetZone = tz, pathPolyline = path,
           score = 0, rationale = [], confidence = 0.75\<rparr>, w1))"

definition generateRecommendations ::
  "engine_constants \<Rightarrow> engine_imports \<Rightarrow> shot_segment \<Rightarrow> shot_features \<Rightarrow> rally_state \<Rightarrow>
   world \<Rightarrow> error + (shot_recommendation list \<times> world)" where
  "generateRecommendations c d sh features rs w =
     (let contactPoint =
            (case trajectorySlice sh of
               [] \<Rightarrow> \<lparr>x_of = 0.5, y_of = 0.25\<rparr>
             | startPoint # _ \<Rightarrow> \<lparr>x_of = x_of startPoint, y_of = y_of startPoint\<rparr>)
      in case getViableShotTypes c (phase rs) (contactZone features) of
           Inl e \<Rightarrow> Inl e
         | Inr viableShotTypes \<Rightarrow>
             (let targetZones =
                    openCourtZones rs @ filter (\<lambda>z. z \<notin> set (openCourtZones rs)) [0..8];
                  (rows, w1) =
                    map_world
                      (\<lambda>st. map_world
                               (\<lambda>tz. buildCandidateRecommendation c d st tz contactPoint)
                               (take 5 targetZones))
                      viableShotTypes w;
                  candidates = concat rows;
                  scored = scoreAndRankRecommendations c candidates features rs
                             (DEFAULT_SCORING_WEIGHTS c);
                  top3 = take 3 scored
              in Inr (top3, w1)))"

text \<open>
  \<^verbatim>\<open>shots.map((shot, index) => ...)\<close> reads \<^verbatim>\<open>rallyStates[index]\<close> and \<^verbatim>\<open>features[index]\<close>;
  beyond the end of either array the value is \<^verbatim>\<open>undefined\<close> and \<^verbatim>\<open>generateRecommendations\<close>
  throws a \<^verbatim>\<open>TypeError\<close> on its first property access.
\<close>

fun perShotFrom ::
  "engine_constants \<Rightarrow> engine_imports \<Rightarrow> rally_state list \<Rightarrow> shot_features list \<Rightarrow> nat \<Rightarrow>
   shot_segment list \<Rightarrow> world \<Rightarrow> error + (per_shot_analysis list \<times> world)" where
  "perShotFrom c d rallyStates features index [] w = Inr ([], w)"
| "perShotFrom c d rallyStates features index (sh # rest) w =
     (if index < length rallyStates \<and> index < length features then
        (case generateRecommendations c d sh (features ! index) (rallyStates ! index) w of
           Inl e \<Rightarrow> Inl e
         | Inr (recs, w1) \<Rightarrow>
             (case perShotFrom c d rallyStates features (Suc index) rest w1 of
                Inl e \<Rightarrow> Inl e
              | Inr (others, w2) \<Rightarrow>
                  Inr (\<lparr>shot_of = sh, features_of = features ! index,
                        recommendations = recs\<rparr> # others, w2)))
      else Inl TypeError)"

definition generatePerShotAnalysis ::
  "engine_constants \<Rightarrow> engine_imports \<Rightarrow> shot_segment list \<Rightarrow> rally_state list \<Rightarrow>
   shot_features list \<Rightarrow> world \<Rightarrow> error + (per_shot_analysis list \<times> world)" where
  "generatePerShotAnalysis c d shots rallyStates features w =
     perShotFrom c d rallyStates features 0 shots w"

definition buildRallySummary ::
  "engine_imports \<Rightarrow> per_shot_analysis list \<Rightarrow> rally_state list \<Rightarrow> rally_summary" where
  "buildRallySummary d analysed rallyStates =
     \<lparr>totalShots = length analysed,
      dominantPhase = getDominantPhase d rallyStates,
      averagePressure = getAveragePressure d rallyStates,
      keyMoments = findKeyMoments d rallyStates,
      winner = Some ''unknown''\<rparr>"

definition analyzeRally ::
  "engine_constants \<Rightarrow> engine_imports \<Rightarrow> string \<Rightarrow> trajectory_point list \<Rightarrow>
   real list option \<Rightarrow> trajectory_point list option \<Rightarrow> trajectory_point list option \<Rightarrow>
   world \<Rightarrow> error + (rally_analysis_result \<times> world)" where
  "analyzeRally c d sid trajectory poseTimestamps opponentPositions playerPositions w =
     (let (t0, w1) = Date_now w;
          logs0 = (if DEBUG_FLAG c
                   then [''Starting analysis with '' @ show_nat (length trajectory)
                         @ '' trajectory points'']
                   else []);
          shots = segmentShots d trajectory poseTimestamps;
          logs1 = (if DEBUG_FLAG c
                   then logs0 @ [''Segmented into '' @ show_nat (length shots) @ '' shots'']
                   else logs0)
      in if length shots = 0 then
           (let (t1, w2) = Date_now w1;
                (iso, w3) = new_Date_toISOString w2;
                (t2, w4) = Date_now w3
            in Inr (\<lparr>sessionId = sid,
                     rallyId = ''rally-'' @ show_int t1,
                     shots_of = [],
                     summary_of = \<lparr>totalShots = 0, dominantPhase = Neutral,
                                   averagePressure = 0.5, keyMoments = [], winner = None\<rparr>,
                     metadata_of = \<lparr>processedAt = iso,
                                    engineVersion = ENGINE_VERSION c,
                                    processingTimeMs = t2 - t0,
                                    debugLogs = (if DEBUG_FLAG c then Some logs1 else None)\<rparr>\<rparr>,
                    w4))
         else
           (let rallyStates = computeAllRallyStates d shots opponentPositions;
                logs2 = (if DEBUG_FLAG c
                         then logs1 @ [''Computed rally states: ''
                                       @ join_with '', '' (map (\<lambda>s. phaseName (phase s)) rallyStates)]
                         else logs1);
                features = extractAllShotFeatures d shots rallyStates opponentPositions
                             playerPositions;
                logs3 = (if DEBUG_FLAG c
                         then logs2 @ [''Extracted features for '' @ show_nat (length features)
                                       @ '' shots'']
                         else logs2)
            in case generatePerShotAnalysis c d shots rallyStates features w1 of
                 Inl e \<Rightarrow> Inl e
               | Inr (perShotAnalysis, w2) \<Rightarrow>
                   (let summ = buildRallySummary d perShotAnalysis rallyStates;
                        (t1, w3) = Date_now w2;
                        (rnd, w4) = Math_random_suffix w3;
                        (iso, w5) = new_Date_toISOString w4;
                        (t2, w6) = Date_now w5
                    in Inr (\<lparr>sessionId = sid,
                             rallyId = ''rally-'' @ show_int t1 @ ''-'' @ rnd,
                             shots_of = perShotAnalysis,
                             summary_of = summ,
                             metadata_of = \<lparr>processedAt = iso,
                                            engineVersion = ENGINE_VERSION c,
                                            processingTimeMs = t2 - t0,
                                            debugLogs = (if DEBUG_FLAG c then Some logs3
                                                         else None)\<rparr>\<rparr>,
                            w6))))"

definition generateRecommendationsForShot ::
  "engine_constants \<Rightarrow> engine_imports \<Rightarrow> trajectory_point list \<Rightarrow> int \<Rightarrow> xy option \<Rightarrow>
   world \<Rightarrow> error + (shot_recommendation list \<times> world)" where
  "generateRecommendationsForShot c d trajectory idx opponentPosition w =
     (let shots = segmentShots d trajectory None
      in if idx < 0 \<or> idx \<ge> int (length shots) then Inr ([], w)
         else
           (let st = computeRallyState d shots idx opponentPosition;
                previousShot = (if idx > 0 then Some (shots ! nat (idx - 1)) else None);
                features =
                  extractShotFeatures d (shots ! nat idx) st previousShot
                    (case opponentPosition of
                       Some p \<Rightarrow> Some [\<lparr>x_of = x_of p, y_of = y_of p,
                                         timestamp = startTime (shots ! nat idx)\<rparr>]
                     | None \<Rightarrow> None)
            in generateRecommendations c d (shots ! nat idx) features st w))"

subsection \<open>Auxiliary notions used in the statements\<close>

text \<open>The table entries with their \<^verbatim>\<open>??\<close> defaults, as the code reads them.\<close>

definition baseRisk :: "engine_constants \<Rightarrow> shot_type \<Rightarrow> real" where
  "baseRisk c st = (case SHOT_RISK_LEVELS c st of None \<Rightarrow> 0.5 | Some r \<Rightarrow> r)"

definition heightFactor :: "engine_constants \<Rightarrow> shot_type \<Rightarrow> real" where
  "heightFactor c st = (case SHOT_HEIGHT_PROXY c st of None \<Rightarrow> 0.5 | Some h \<Rightarrow> h)"

text \<open>
  The 3 x 3 zone grid: zone \<open>z\<close> lies in row \<open>z div 3\<close> (the depth third) and column
  \<open>z mod 3\<close>. Two zones share a grid edge when they differ by one in row or in column,
  not both.
\<close>

definition zoneRow :: "int \<Rightarrow> int" where
  "zoneRow z = z div 3"

definition zoneCol :: "int \<Rightarrow> int" where
  "zoneCol z = z mod 3"

definition sharesGridEdge :: "int \<Rightarrow> int \<Rightarrow> bool" where
  "sharesGridEdge a b =
     (0 \<le> a \<and> a \<le> 8 \<and> 0 \<le> b \<and> b \<le> 8 \<and>
      ((zoneRow a = zoneRow b \<and> \<bar>zoneCol a - zoneCol b\<bar> = 1) \<or>
       (zoneCol a = zoneCol b \<and> \<bar>zoneRow a - zoneRow b\<bar> = 1)))"

text \<open>
  Modelled from the spec: \<^verbatim>\<open>isAdjacentZone\<close> of \<^verbatim>\<open>rally-state-machine.ts\<close> is missing. The
  specification says: true when \<open>a = b\<close>; true when \<open>a\<close>, \<open>b\<close> share a grid edge; true for
  any zone adjacent to the center zone (4), including its diagonals; false for
  corner-to-corner pairs that are not the center.
\<close>

definition isAdjacentZone :: "int \<Rightarrow> int \<Rightarrow> bool" where
  "isAdjacentZone a b =
     (a = b \<or> sharesGridEdge a b \<or>
      (a = 4 \<and> 0 \<le> b \<and> b \<le> 8) \<or> (b = 4 \<and> 0 \<le> a \<and> a \<le> 8))"

subsection \<open>Sample values of the parameters\<close>

text \<open>
  Concrete values on which the model is run. The weights are those of the scoring table
  of the engine's README (20, 25, 15, 10); the rally state is the default state of the
  tests (open corners); the zone centers are those the tests of \<^verbatim>\<open>zoneToPosition\<close> expect.
  The other values stand in for the entries of \<^verbatim>\<open>constants.ts\<close> and for the imported
  functions.
\<close>

definition corners_state :: rally_state where
  "corners_state = \<lparr>phase = Neutral, initiative_of = Unknown_initiative, pressure = 0.5,
                    openCourtZones = [0, 2, 6, 8], state_timestamp = 0\<rparr>"

definition sample_weights :: scoring_weights where
  "sample_weights =
     \<lparr>movementPressure = 20, openCourt = 25, riskUnderPressure = 15, angleExposure = 10\<rparr>"

definition sample_constants :: engine_constants where
  "sample_constants =
     \<lparr>DEBUG_FLAG = False,
      ENGINE_VERSION = ''1.0.0'',
      DEFAULT_SCORING_WEIGHTS = sample_weights,
      BASE_SCORE = 50,
      SHOT_RISK_LEVELS = [Clear \<mapsto> 0.2, Lift \<mapsto> 0.3, Smash \<mapsto> 0.7],
      ZONE_DISTANCES = Map.empty,
      ANGLE_RISK_BY_ZONE = Map.empty,
      PRESSURE_THRESHOLDS_attack = 0.3,
      PRESSURE_THRESHOLDS_defense = 0.7,
      VIABLE_SHOTS_BY_PHASE =
        [Attack \<mapsto> [Smash, Drop, Net, Drive],
         Neutral \<mapsto> [Clear, Drop, Drive, Net, Lift],
         Defense \<mapsto> [Clear, Lift, Drive]],
      SHOT_HEIGHT_PROXY = [Clear \<mapsto> 0.9, Drive \<mapsto> 0.2]\<rparr>"

definition sample_zoneToPosition :: "int \<Rightarrow> xy" where
  "sample_zoneToPosition z =
     (if 0 \<le> z \<and> z \<le> 8
      then \<lparr>x_of = (real_of_int (z mod 3) + 1 / 2) / 3,
            y_of = 1 / 2 + (real_of_int (z div 3) + 1 / 2) / 6\<rparr>
      else \<lparr>x_of = 0.5, y_of = 0.75\<rparr>)"

definition sample_features :: "rally_state \<Rightarrow> shot_features" where
  "sample_features st =
     \<lparr>contactZone = 4, landingZone = 7, shuttleSpeedProxy = 0.5, shuttleHeightProxy = 0.6,
      opponentMovementDistance = 0.4, opponentDirectionChange = 0, recoveryQuality = 0.3,
      rallyState = st\<rparr>"

definition sample_imports :: engine_imports where
  "sample_imports =
     \<lparr>segmentShots_body =
        (\<lambda>tr pose. [\<lparr>shotIndex = 0, type_shot = Unknown, startTime = timestamp (hd tr),
                      endTime = timestamp (last tr), trajectorySlice = tr,
                      player = (if y_of (hd tr) < 0.5 then Near else Far)\<rparr>]),
      computeRallyState = (\<lambda>shots i opp. corners_state),
      computeAllRallyStates = (\<lambda>shots opp. map (\<lambda>_. corners_state) shots),
      extractShotFeatures = (\<lambda>sh st prev opp. sample_features st),
      extractAllShotFeatures = (\<lambda>shots states opp pl. map sample_features states),
      zoneToPosition = sample_zoneToPosition,
      getDominantPhase = (\<lambda>states. Neutral),
      getAveragePressure = (\<lambda>states. 0.5),
      findKeyMoments = (\<lambda>states. [])\<rparr>"

definition sample_world :: world where
  "sample_world =
     \<lparr>clock = (\<lambda>k. 1700000000000 + int k),
      random36 = (\<lambda>k. ''k3j9x0q2z''),
      isoString = show_int,
      reads = 0,
      draws = 0\<rparr>"

definition sample_trajectory :: "trajectory_point list" where
  "sample_trajectory =
     [\<lparr>x_of = 0.5, y_of = 0.2, timestamp = 0\<rparr>,
      \<lparr>x_of = 0.5, y_of = 0.5, timestamp = 1000\<rparr>,
      \<lparr>x_of = 0.5, y_of = 0.8, timestamp = 2000\<rparr>]"

definition sample_candidate :: "shot_type \<Rightarrow> int \<Rightarrow> shot_recommendation" where
  "sample_candidate st tz =
     \<lparr>id_str = ''rec-0'', shotType = st, targetZone = tz, pathPolyline = [],
      score = 0, rationale = [], confidence = 0.75\<rparr>"


definition other_world :: world where
  "other_world =
     \<lparr>clock = (\<lambda>k. 42 + 7 * int k),
      random36 = (\<lambda>k. ''a'' @ show_nat k),
      isoString = (\<lambda>t. ''t'' @ show_int t),
      reads = 3,
      draws = 5\<rparr>"







subsection \<open>What a caller can observe apart from opaque ids and wall-clock metadata\<close>

text \<open>
  \<open>eraseOpaque\<close> blanks the fields that the determinism property exempts: the rally id, the
  recommendation ids, \<^verbatim>\<open>processedAt\<close> and \<^verbatim>\<open>processingTimeMs\<close>. \<open>observable\<close> is what is left
  of an outcome of \<open>analyzeRally\<close>: the thrown error, or the erased result (the world after
  the call is dropped).
\<close>

definition eraseId :: "shot_recommendation \<Rightarrow> shot_recommendation" where
  "eraseId r = r\<lparr>id_str := []\<rparr>"

definition eraseShot :: "per_shot_analysis \<Rightarrow> per_shot_analysis" where
  "eraseShot a = a\<lparr>recommendations := map eraseId (recommendations a)\<rparr>"

definition eraseOpaque :: "rally_analysis_result \<Rightarrow> rally_analysis_result" where
  "eraseOpaque res =
     res\<lparr>rallyId := [],
         shots_of := map eraseShot (shots_of res),
         metadata_of := (metadata_of res)\<lparr>processedAt := [], processingTimeMs := 0\<rparr>\<rparr>"

definition observable ::
  "error + (rally_analysis_result \<times> world) \<Rightarrow> error + rally_analysis_result" where
  "observable out = (case out of Inl e \<Rightarrow> Inl e | Inr (res, w) \<Rightarrow> Inr (eraseOpaque res))"

definition observableRecs ::
  "error + (shot_recommendation list \<times> world) \<Rightarrow> error + shot_recommendation list" where
  "observableRecs out = (case out of Inl e \<Rightarrow> Inl e | Inr (recs, w) \<Rightarrow> Inr (map eraseId recs))"

definition observableShots ::
  "error + (per_shot_analysis list \<times> world) \<Rightarrow> error + per_shot_analysis list" where
  "observableShots out = (case out of Inl e \<Rightarrow> Inl e | Inr (as, w) \<Rightarrow> Inr (map eraseShot as))"

section \<open>Properties of the scoring engine\<close>

subsection \<open>Rounding and clamping\<close>


lemma Math_round_range:
  assumes "0 \<le> v" and "v \<le> 100"
  shows "0 \<le> Math_round v" and "Math_round v \<le> 100"
proof -
  have "(0::int) \<le> \<lfloor>v + 1 / 2\<rfloor>" using assms by (simp add: zero_le_floor) 
  then show "0 \<le> Math_round v" unfolding Math_round_def by simp
  have "v + 1 / 2 < 101" using assms by simp
  then have "\<lfloor>v + 1 / 2\<rfloor> \<le> (100::int)" by (simp add: floor_le_iff)
  then show "Math_round v \<le> 100" unfolding Math_round_def by linarith
qed

lemma score_scoreRecommendation:
  "score (scoreRecommendation c r f rs wts) =
     Math_round (min MAX_SCORE (max MIN_SCORE
       (BASE_SCORE c
        + calculateMovementPressureScore c (targetZone r) f * movementPressure wts
        + calculateOpenCourtScore (targetZone r) rs * openCourt wts
        - (if pressure rs > PRESSURE_THRESHOLDS_attack c
           then assessShotRisk c (shotType r) rs * riskUnderPressure wts else 0)
        - calculateAngleExposure c (targetZone r) (shotType r) * angleExposure wts)))"
  unfolding scoreRecommendation_def by (simp add: Let_def)

lemma confidence_scoreRecommendation:
  "confidence (scoreRecommendation c r f rs wts) = calculateConfidence c (shotType r) rs f"
  unfolding scoreRecommendation_def by (simp add: Let_def)

lemma clamp01_mono: "a \<le> b \<Longrightarrow> min 1 (max 0 a) \<le> min (1::real) (max 0 b)"
  by auto

subsection \<open>Ranges of score and confidence\<close>

text \<open>
  Claim C4. For every candidate recommendation, features, rally state and weights, the
  recommendation returned by \<open>scoreRecommendation\<close> has its score in [0, 100] and its
  confidence in [0.5, 1].
\<close>

theorem scoreRecommendation_ranges:
  "0 \<le> score (scoreRecommendation c r f rs wts) \<and>
   score (scoreRecommendation c r f rs wts) \<le> 100 \<and>
   0.5 \<le> confidence (scoreRecommendation c r f rs wts) \<and>
   confidence (scoreRecommendation c r f rs wts) \<le> 1"
proof -
  let ?v = "BASE_SCORE c
        + calculateMovementPressureScore c (targetZone r) f * movementPressure wts
        + calculateOpenCourtScore (targetZone r) rs * openCourt wts
        - (if pressure rs > PRESSURE_THRESHOLDS_attack c
           then assessShotRisk c (shotType r) rs * riskUnderPressure wts else 0)
        - calculateAngleExposure c (targetZone r) (shotType r) * angleExposure wts"
  have lo: "0 \<le> min MAX_SCORE (max MIN_SCORE ?v)" 
    by (simp add: MIN_SCORE_def MAX_SCORE_def)
  have hi: "min MAX_SCORE (max MIN_SCORE ?v) \<le> 100"
    by (simp add: MIN_SCORE_def MAX_SCORE_def)
  have s: "0 \<le> score (scoreRecommendation c r f rs wts) \<and>
   score (scoreRecommendation c r f rs wts) \<le> 100"
    unfolding score_scoreRecommendation using Math_round_range[OF lo hi] by simp
  have cf: "0.5 \<le> calculateConfidence c (shotType r) rs f \<and>
       calculateConfidence c (shotType r) rs f \<le> 1"
    unfolding calculateConfidence_def by (simp add: Let_def)
  show ?thesis using s cf unfolding confidence_scoreRecommendation by simp
qed

text \<open>A clear to the open corner zone 0, in the default state.\<close>

theorem scoreRecommendation_ranges_witness:
  "0 \<le> score (scoreRecommendation sample_constants (sample_candidate Clear 0)
                 (sample_features corners_state) corners_state sample_weights) \<and>
   score (scoreRecommendation sample_constants (sample_candidate Clear 0)
            (sample_features corners_state) corners_state sample_weights) \<le> 100 \<and>
   0.5 \<le> confidence (scoreRecommendation sample_constants (sample_candidate Clear 0)
                        (sample_features corners_state) corners_state sample_weights) \<and>
   confidence (scoreRecommendation sample_constants (sample_candidate Clear 0)
                 (sample_features corners_state) corners_state sample_weights) \<le> 1"
  using scoreRecommendation_ranges [of sample_constants "sample_candidate Clear 0"
      "sample_features corners_state" corners_state sample_weights]
  by simp

subsection \<open>Frame of scoreRecommendation\<close>

text \<open>
  Claim C10. The recommendation returned by \<open>scoreRecommendation\<close> has the id, the shot
  type, the target zone and the path polyline of the input candidate; it is the candidate
  with its score, rationale and confidence replaced.
\<close>

theorem scoreRecommendation_frame:
  "id_str (scoreRecommendation c r f rs wts) = id_str r \<and>
   shotType (scoreRecommendation c r f rs wts) = shotType r \<and>
   targetZone (scoreRecommendation c r f rs wts) = targetZone r \<and>
   pathPolyline (scoreRecommendation c r f rs wts) = pathPolyline r \<and>
   scoreRecommendation c r f rs wts =
     r\<lparr>score := score (scoreRecommendation c r f rs wts),
       rationale := rationale (scoreRecommendation c r f rs wts),
       confidence := confidence (scoreRecommendation c r f rs wts)\<rparr>"
  unfolding scoreRecommendation_def by (simp add: Let_def)

text \<open>The same candidate keeps its id, shot type, target zone and path.\<close>

theorem scoreRecommendation_frame_witness:
  "id_str (scoreRecommendation sample_constants (sample_candidate Clear 0)
             (sample_features corners_state) corners_state sample_weights) = ''rec-0'' \<and>
   shotType (scoreRecommendation sample_constants (sample_candidate Clear 0)
               (sample_features corners_state) corners_state sample_weights) = Clear \<and>
   targetZone (scoreRecommendation sample_constants (sample_candidate Clear 0)
                 (sample_features corners_state) corners_state sample_weights) = 0 \<and>
   pathPolyline (scoreRecommendation sample_constants (sample_candidate Clear 0)
                   (sample_features corners_state) corners_state sample_weights) = []"
  using scoreRecommendation_frame [of sample_constants "sample_candidate Clear 0"
      "sample_features corners_state" corners_state sample_weights]
  by (simp add: sample_candidate_def)

subsection \<open>Defensive shots against a smash, in defense under high pressure\<close>






subsection \<open>Open-court score\<close>

lemma zone_row_col: "z = 3 * zoneRow z + zoneCol z"
  unfolding zoneRow_def zoneCol_def by simp

lemma sharesGridEdge_diff:
  assumes "sharesGridEdge a b"
  shows "\<bar>a - b\<bar> = 1 \<or> \<bar>a - b\<bar> = 3"
proof -
  define ra ca rb cb where "ra = zoneRow a" and "ca = zoneCol a"
    and "rb = zoneRow b" and "cb = zoneCol b"
  have a: "a = 3 * ra + ca" and b: "b = 3 * rb + cb"
    unfolding ra_def ca_def rb_def cb_def by (rule zone_row_col)+
  from assms have "(ra = rb \<and> \<bar>ca - cb\<bar> = 1) \<or> (ca = cb \<and> \<bar>ra - rb\<bar> = 1)"
    unfolding sharesGridEdge_def ra_def ca_def rb_def cb_def by blast
  then show ?thesis
  proof
    assume "ra = rb \<and> \<bar>ca - cb\<bar> = 1"
    then have "\<bar>a - b\<bar> = 1" unfolding a b by linarith
    then show ?thesis ..
  next
    assume "ca = cb \<and> \<bar>ra - rb\<bar> = 1"
    then have "\<bar>a - b\<bar> = 3" unfolding a b by linarith
    then show ?thesis ..
  qed
qed

text \<open>
  Claim C6, as amended. \<open>calculateOpenCourtScore\<close> returns 1 when the target zone is an
  open corner zone (0, 2, 6, 8) and 0.8 when it is any other open zone; it returns 0.4
  when the target is not open and shares a grid edge with some open zone (diagonal
  neighbours, those of the center zone included, do not count); it returns 0.1 when the
  target is not open and no open zone has an id that differs from the target's by
  exactly 1 or exactly 3.
\<close>

theorem calculateOpenCourtScore_cases:
  "(tz \<in> set (openCourtZones rs) \<longrightarrow>
      calculateOpenCourtScore tz rs = (if tz \<in> {0, 2, 6, 8} then 1 else 0.8)) \<and>
   (tz \<notin> set (openCourtZones rs) \<and> (\<exists>z \<in> set (openCourtZones rs). sharesGridEdge tz z) \<longrightarrow>
      calculateOpenCourtScore tz rs = 0.4) \<and>
   (tz \<notin> set (openCourtZones rs) \<and>
    (\<forall>z \<in> set (openCourtZones rs). \<bar>tz - z\<bar> \<noteq> 1 \<and> \<bar>tz - z\<bar> \<noteq> 3) \<longrightarrow>
      calculateOpenCourtScore tz rs = 0.1)"
proof (intro conjI impI)
  assume "tz \<in> set (openCourtZones rs)"
  then show "calculateOpenCourtScore tz rs = (if tz \<in> {0, 2, 6, 8} then 1 else 0.8)"
    unfolding calculateOpenCourtScore_def by (simp add: Let_def)
next
  assume h: "tz \<notin> set (openCourtZones rs) \<and> (\<exists>z \<in> set (openCourtZones rs). sharesGridEdge tz z)"
  then obtain z where z: "z \<in> set (openCourtZones rs)" "sharesGridEdge tz z" by blast
  from z(2) have "\<bar>tz - z\<bar> = 1 \<or> \<bar>tz - z\<bar> = 3" by (rule sharesGridEdge_diff)
  with z(1) have "list_ex (\<lambda>openZone. let diff = \<bar>tz - openZone\<bar> in diff = 1 \<or> diff = 3)
                (openCourtZones rs)"
    unfolding list_ex_iff Let_def by blast
  with h show "calculateOpenCourtScore tz rs = 0.4"
    unfolding calculateOpenCourtScore_def by simp
next
  assume h: "tz \<notin> set (openCourtZones rs) \<and>
    (\<forall>z \<in> set (openCourtZones rs). \<bar>tz - z\<bar> \<noteq> 1 \<and> \<bar>tz - z\<bar> \<noteq> 3)"
  then have "\<not> list_ex (\<lambda>openZone. let diff = \<bar>tz - openZone\<bar> in diff = 1 \<or> diff = 3)
                (openCourtZones rs)"
    unfolding list_ex_iff Let_def by blast
  with h show "calculateOpenCourtScore tz rs = 0.1"
    unfolding calculateOpenCourtScore_def by simp
qed

text \<open>The three cases at the default state: targets 0 (open corner), 1 and 4.\<close>

theorem calculateOpenCourtScore_cases_witness:
  "0 \<in> set (openCourtZones corners_state) \<and> calculateOpenCourtScore 0 corners_state = 1 \<and>
   1 \<notin> set (openCourtZones corners_state) \<and> sharesGridEdge 1 0 \<and>
   calculateOpenCourtScore 1 corners_state = 0.4 \<and>
   4 \<notin> set (openCourtZones corners_state) \<and> calculateOpenCourtScore 4 corners_state = 0.1"
proof -
  have a: "(0::int) \<in> set (openCourtZones corners_state)" by (simp add: corners_state_def)
  have b: "(1::int) \<notin> set (openCourtZones corners_state) \<and>
           (\<exists>z \<in> set (openCourtZones corners_state). sharesGridEdge 1 z)"
    by (simp add: corners_state_def sharesGridEdge_def zoneRow_def zoneCol_def)
  have c: "(4::int) \<notin> set (openCourtZones corners_state) \<and>
    (\<forall>z \<in> set (openCourtZones corners_state). \<bar>4 - z\<bar> \<noteq> 1 \<and> \<bar>4 - z\<bar> \<noteq> 3)"
    by (simp add: corners_state_def)
  have e: "sharesGridEdge 1 0" by (simp add: sharesGridEdge_def zoneRow_def zoneCol_def)
  show ?thesis
    using a b c e calculateOpenCourtScore_cases [of 0 corners_state]
      calculateOpenCourtScore_cases [of 1 corners_state]
      calculateOpenCourtScore_cases [of 4 corners_state]
    by simp
qed

text \<open>
  Claim C6 as stated fails: with the four corners open, the center zone 4 is adjacent to
  the open zone 0 in the specified adjacency relation (a diagonal of the center), it is
  not open itself, and its score is 0.1, not 0.4.
\<close>

theorem calculateOpenCourtScore_center_diagonal_counterexample:
  "isAdjacentZone 4 0 \<and> 0 \<in> set (openCourtZones corners_state) \<and>
   4 \<notin> set (openCourtZones corners_state) \<and>
   calculateOpenCourtScore 4 corners_state = 0.1 \<and>
   calculateOpenCourtScore 4 corners_state \<noteq> 0.4"
  by (simp add: isAdjacentZone_def corners_state_def calculateOpenCourtScore_def)

section \<open>Properties of the recommendation generator\<close>

subsection \<open>Viable shot types\<close>




subsection \<open>Shot path\<close>

text \<open>
  Claim C8, as amended. The polyline of \<open>generateShotPath\<close> has six points: it starts at the
  contact point (height 0.5), ends at the center of the target zone (height 0.2), and has
  exactly four interior points, at \<open>t = i / 5\<close> for \<open>i = 1, ..., 4\<close>, interpolated linearly
  in the plane, with height \<open>0.3 + (3 * heightFactor) * 4 * t * (1 - t)\<close>.
\<close>

theorem generateShotPath_shape:
  "length (generateShotPath c d cp tz st) = 6 \<and>
   hd (generateShotPath c d cp tz st) = \<lparr>x_of = x_of cp, y_of = y_of cp, z_of = 0.5\<rparr> \<and>
   last (generateShotPath c d cp tz st) =
     \<lparr>x_of = x_of (zoneToPosition d tz), y_of = y_of (zoneToPosition d tz), z_of = 0.2\<rparr> \<and>
   (\<forall>i \<in> {1, 2, 3, 4}.
      generateShotPath c d cp tz st ! i =
        \<lparr>x_of = x_of cp + (x_of (zoneToPosition d tz) - x_of cp) * (real i / 5),
         y_of = y_of cp + (y_of (zoneToPosition d tz) - y_of cp) * (real i / 5),
         z_of = 0.3 + (heightFactor c st * 3) * 4 * (real i / 5) * (1 - real i / 5)\<rparr>)"
proof -
  have r: "[1..<5] = [1, 2, 3, Suc 3]" by (simp add: upt_rec)
  show ?thesis
    unfolding generateShotPath_def heightFactor_def Let_def r
    by simp
qed


text \<open>A clear from (0.5, 0.3) to zone 7: the third point of the path, at \<open>t = 2 / 5\<close>.\<close>

theorem generateShotPath_shape_witness:
  "(2::nat) \<in> {1, 2, 3, 4} \<and>
   length (generateShotPath sample_constants sample_imports \<lparr>x_of = 0.5, y_of = 0.3\<rparr> 7 Clear) = 6 \<and>
   generateShotPath sample_constants sample_imports \<lparr>x_of = 0.5, y_of = 0.3\<rparr> 7 Clear ! 2 =
     \<lparr>x_of = 0.5, y_of = 0.3 + (11 / 12 - 0.3) * (2 / 5),
      z_of = 0.3 + (0.9 * 3) * 4 * (2 / 5) * (1 - 2 / 5)\<rparr>"
proof -
  have m: "(2::nat) \<in> {1, 2, 3, 4}" by simp
  have z: "zoneToPosition sample_imports 7 = \<lparr>x_of = 0.5, y_of = 11 / 12\<rparr>"
    by (simp add: sample_imports_def sample_zoneToPosition_def)
  have h: "heightFactor sample_constants Clear = 0.9"
    by (simp add: heightFactor_def sample_constants_def)
  show ?thesis
    using m generateShotPath_shape [of sample_constants sample_imports
        "\<lparr>x_of = 0.5, y_of = 0.3\<rparr>" 7 Clear]
    by (simp add: z h)
qed

text \<open>
  Claim C8 as stated fails on the count: a path from (0.5, 0.3) to zone 7 has six points,
  four of them interior, not five.
\<close>

theorem generateShotPath_interior_points_counterexample:
  "length (generateShotPath sample_constants sample_imports \<lparr>x_of = 0.5, y_of = 0.3\<rparr> 7 Clear) = 6 \<and>
   length (butlast (tl (generateShotPath sample_constants sample_imports
                          \<lparr>x_of = 0.5, y_of = 0.3\<rparr> 7 Clear))) = 4 \<and>
   length (butlast (tl (generateShotPath sample_constants sample_imports
                          \<lparr>x_of = 0.5, y_of = 0.3\<rparr> 7 Clear))) \<noteq> 5"
  by (simp add: generateShotPath_def Let_def upt_rec)

subsection \<open>Top three recommendations\<close>














subsection \<open>Empty trajectory\<close>

text \<open>
  Claim C2. For the empty trajectory \<open>analyzeRally\<close> returns (it does not throw) a result
  with no shots and the summary \<open>totalShots = 0\<close>, \<open>dominantPhase = neutral\<close>,
  \<open>averagePressure = 0.5\<close>, \<open>keyMoments = []\<close>; it carries the session id and the engine
  version.
\<close>

theorem analyzeRally_empty_trajectory:
  "\<exists>res w'. analyzeRally c d sid [] poseTimestamps opponentPositions playerPositions w
               = Inr (res, w') \<and>
     sessionId res = sid \<and>
     shots_of res = [] \<and>
     totalShots (summary_of res) = 0 \<and>
     dominantPhase (summary_of res) = Neutral \<and>
     averagePressure (summary_of res) = 0.5 \<and>
     keyMoments (summary_of res) = [] \<and>
     engineVersion (metadata_of res) = ENGINE_VERSION c"
  unfolding analyzeRally_def segmentShots_def
  by (simp add: Let_def split: prod.splits)

text \<open>The empty trajectory with the sample parameters.\<close>

theorem analyzeRally_empty_trajectory_witness:
  "\<exists>res w'. analyzeRally sample_constants sample_imports ''s'' [] None None None sample_world
               = Inr (res, w') \<and>
     sessionId res = ''s'' \<and>
     shots_of res = [] \<and>
     totalShots (summary_of res) = 0 \<and>
     dominantPhase (summary_of res) = Neutral \<and>
     averagePressure (summary_of res) = 0.5 \<and>
     keyMoments (summary_of res) = []"
  using analyzeRally_empty_trajectory [of sample_constants sample_imports "''s''" None None None
      sample_world]
  by blast

subsection \<open>Single-shot query with an invalid index\<close>

text \<open>
  Claim C3. For every trajectory and every shot index that is negative or at least the
  number of segmented shots, \<open>generateRecommendationsForShot\<close> returns the empty list; it
  does not throw and reads neither the clock nor the random source.
\<close>

theorem generateRecommendationsForShot_invalid_index:
  assumes "idx < 0 \<or> int (length (segmentShots d trajectory None)) \<le> idx"
  shows "generateRecommendationsForShot c d trajectory idx opponentPosition w = Inr ([], w)"
  using assms unfolding generateRecommendationsForShot_def by (auto simp add: Let_def)

text \<open>The sample trajectory is segmented into one shot, so index 1 is out of range.\<close>

lemma sample_segment_length: "length (segmentShots sample_imports sample_trajectory None) = 1"
  by (simp add: segmentShots_def sample_imports_def sample_trajectory_def)

theorem generateRecommendationsForShot_invalid_index_witness:
  "((1::int) < 0 \<or> int (length (segmentShots sample_imports sample_trajectory None)) \<le> 1) \<and>
   generateRecommendationsForShot sample_constants sample_imports sample_trajectory 1 None
     sample_world = Inr ([], sample_world)"
proof -
  have h: "(1::int) < 0 \<or> int (length (segmentShots sample_imports sample_trajectory None)) \<le> 1"
    by (simp add: sample_segment_length)
  show ?thesis
    using h generateRecommendationsForShot_invalid_index [OF h] by blast
qed

subsection \<open>Determinism\<close>

lemma map_world_erase:
  assumes "\<And>x w. g (fst (f x w)) = h x"
  shows "map g (fst (map_world f xs w)) = map h xs"
proof (induction xs arbitrary: w)
  case Nil
  then show ?case by simp
next
  case (Cons a xs)
  obtain b w1 where b: "f a w = (b, w1)" by force
  obtain bs w2 where bs: "map_world f xs w1 = (bs, w2)" by force
  have "g b = h a" using assms [of a w] b by simp
  moreover have "map g bs = map h xs" using Cons [of w1] bs by simp
  ultimately show ?case using b bs by simp
qed

lemma eraseId_buildCandidate:
  "eraseId (fst (buildCandidateRecommendation c d st tz cp w)) =
     \<lparr>id_str = [], shotType = st, targetZone = tz,
      pathPolyline = generateShotPath c d cp tz st,
      score = 0, rationale = [], confidence = 0.75\<rparr>"
  unfolding buildCandidateRecommendation_def eraseId_def
  by (simp add: Let_def split: prod.splits)

lemma eraseId_scoreRecommendation:
  "eraseId (scoreRecommendation c r f rs wts) = scoreRecommendation c (eraseId r) f rs wts"
  unfolding scoreRecommendation_def eraseId_def by (simp add: Let_def)

lemma score_eraseId: "score (eraseId r) = score r"
  unfolding eraseId_def by simp

lemma map_insort_key:
  assumes "\<And>x. k (g x) = k x"
  shows "map g (insort_key k x xs) = insort_key k (g x) (map g xs)"
  by (induction xs) (auto simp: assms)

lemma map_sort_key:
  assumes "\<And>x. k (g x) = k x"
  shows "map g (sort_key k xs) = sort_key k (map g xs)"
proof (induction xs)
  case Nil
  then show ?case by simp
next
  case (Cons a xs)
  have "map g (insort_key k a (sort_key k xs)) = insort_key k (g a) (map g (sort_key k xs))"
    using assms by (rule map_insort_key)
  with Cons show ?case by simp
qed

lemma eraseId_scoreAndRank:
  "map eraseId (scoreAndRankRecommendations c cands f rs wts) =
     scoreAndRankRecommendations c (map eraseId cands) f rs wts"
proof -
  have k: "\<And>x. - score (eraseId x) = - score x" by (simp add: score_eraseId)
  show ?thesis
    unfolding scoreAndRankRecommendations_def Let_def
  proof -
    have "map eraseId (sort_key (\<lambda>r. - score r)
             (map (\<lambda>r. scoreRecommendation c r f rs wts) cands)) =
          sort_key (\<lambda>r. - score r)
             (map eraseId (map (\<lambda>r. scoreRecommendation c r f rs wts) cands))"
      using k by (rule map_sort_key)
    then show "map eraseId (sort_key (\<lambda>r. - score r)
             (map (\<lambda>r. scoreRecommendation c r f rs wts) cands)) =
          sort_key (\<lambda>r. - score r)
             (map (\<lambda>r. scoreRecommendation c r f rs wts) (map eraseId cands))"
      by (simp add: eraseId_scoreRecommendation comp_def)
  qed
qed

lemma generateRecommendations_world:
  "observableRecs (generateRecommendations c d sh f rs w1) =
   observableRecs (generateRecommendations c d sh f rs w2)"
proof (cases "getViableShotTypes c (phase rs) (contactZone f)")
  case (Inl e)
  then show ?thesis unfolding generateRecommendations_def observableRecs_def by (simp add: Let_def)
next
  case (Inr ts)
  define cp where "cp = (case trajectorySlice sh of
               [] \<Rightarrow> \<lparr>x_of = 0.5, y_of = 0.25\<rparr>
             | startPoint # _ \<Rightarrow> \<lparr>x_of = x_of startPoint, y_of = y_of startPoint\<rparr>)"
  define tzs where "tzs = take 5 (openCourtZones rs @ filter (\<lambda>z. z \<notin> set (openCourtZones rs)) [0..8])"
  define build where "build = (\<lambda>st. map_world (\<lambda>tz. buildCandidateRecommendation c d st tz cp) tzs)"
  define cand0 where "cand0 = (\<lambda>st tz. \<lparr>id_str = [], shotType = st, targetZone = tz,
      pathPolyline = generateShotPath c d cp tz st,
      score = 0, rationale = [], confidence = 0.75\<rparr>)"
  have row: "\<And>st w. map eraseId (fst (build st w)) = map (cand0 st) tzs"
    unfolding build_def cand0_def
    by (rule map_world_erase) (rule eraseId_buildCandidate)
  have rows: "\<And>w. map (map eraseId) (fst (map_world build ts w)) = map (\<lambda>st. map (cand0 st) tzs) ts"
    by (rule map_world_erase) (rule row)
  have out: "\<And>w. observableRecs (generateRecommendations c d sh f rs w) =
      Inr (take 3 (scoreAndRankRecommendations c
            (concat (map (\<lambda>st. map (cand0 st) tzs) ts)) f rs (DEFAULT_SCORING_WEIGHTS c)))"
  proof -
    fix w
    obtain rws w' where rw: "map_world build ts w = (rws, w')" by force
    have g: "generateRecommendations c d sh f rs w =
       Inr (take 3 (scoreAndRankRecommendations c (concat rws) f rs (DEFAULT_SCORING_WEIGHTS c)), w')"
      apply (unfold generateRecommendations_def Let_def)
      apply (fold cp_def tzs_def)
      apply (fold build_def)
      apply (simp add: Inr rw)
      done
    have "map eraseId (concat rws) = concat (map (map eraseId) rws)" by (simp add: map_concat)
    also have "\<dots> = concat (map (\<lambda>st. map (cand0 st) tzs) ts)"
      using rows [of w] rw by simp
    finally have e: "map eraseId (concat rws) = concat (map (\<lambda>st. map (cand0 st) tzs) ts)" .
    show "observableRecs (generateRecommendations c d sh f rs w) =
      Inr (take 3 (scoreAndRankRecommendations c
            (concat (map (\<lambda>st. map (cand0 st) tzs) ts)) f rs (DEFAULT_SCORING_WEIGHTS c)))"
      unfolding g observableRecs_def
      by (simp add: take_map [symmetric] eraseId_scoreAndRank e)
  qed
  show ?thesis unfolding out ..
qed

lemma perShotFrom_world:
  "observableShots (perShotFrom c d rallyStates features index shots w1) =
   observableShots (perShotFrom c d rallyStates features index shots w2)"
proof (induction shots arbitrary: index w1 w2)
  case Nil
  then show ?case by (simp add: observableShots_def)
next
  case (Cons sh rest)
  show ?case
  proof (cases "index < length rallyStates \<and> index < length features")
    case False
    then show ?thesis by (auto simp: observableShots_def)
  next
    case True
    let ?g = "\<lambda>w. generateRecommendations c d sh (features ! index) (rallyStates ! index) w"
    have o: "observableRecs (?g w1) = observableRecs (?g w2)"
      by (rule generateRecommendations_world)
    show ?thesis
    proof (cases "?g w1")
      case (Inl e)
      then have "?g w2 = Inl e" using o
        by (auto simp: observableRecs_def split: sum.splits prod.splits)
      with Inl True show ?thesis by (simp add: observableShots_def)
    next
      case (Inr p1)
      obtain recs1 w1' where p1: "p1 = (recs1, w1')" by force
      obtain recs2 w2' where g2: "?g w2 = Inr (recs2, w2')" 
        using o Inr p1 by (auto simp: observableRecs_def split: sum.splits prod.splits)
      have er: "map eraseId recs1 = map eraseId recs2"
        using o Inr p1 g2 by (simp add: observableRecs_def)
      have ih: "observableShots (perShotFrom c d rallyStates features (Suc index) rest w1') =
                observableShots (perShotFrom c d rallyStates features (Suc index) rest w2')"
        by (rule Cons)
      show ?thesis
        using True Inr p1 g2 er ih
        by (auto simp: observableShots_def eraseShot_def split: sum.splits prod.splits)
    qed
  qed
qed

text \<open>
  Claim C9. Two calls of \<open>analyzeRally\<close> with identical arguments, in any two worlds (clock
  readings, random values), have the same outcome in every field except the rally id, the
  recommendation ids, \<^verbatim>\<open>processedAt\<close> and \<^verbatim>\<open>processingTimeMs\<close>; if one throws, the other
  throws the same error.
\<close>

theorem analyzeRally_deterministic:
  "observable (analyzeRally c d sid trajectory poseTimestamps opponentPositions playerPositions w1)
   = observable (analyzeRally c d sid trajectory poseTimestamps opponentPositions playerPositions w2)"
proof (cases "length (segmentShots d trajectory poseTimestamps) = 0")
  case True
  then show ?thesis
    unfolding analyzeRally_def observable_def eraseOpaque_def
    by (simp add: Let_def split: prod.splits)
next
  case False
  define shots where "shots = segmentShots d trajectory poseTimestamps"
  define rallyStates where "rallyStates = computeAllRallyStates d shots opponentPositions"
  define features where "features = extractAllShotFeatures d shots rallyStates opponentPositions
                             playerPositions"
  let ?p = "\<lambda>w. generatePerShotAnalysis c d shots rallyStates features w"
  have o: "\<And>wa wb. observableShots (?p wa) = observableShots (?p wb)"
    unfolding generatePerShotAnalysis_def by (rule perShotFrom_world)
  obtain t1 w1' where d1: "Date_now w1 = (t1, w1')" by force
  obtain t2 w2' where d2: "Date_now w2 = (t2, w2')" by force
  show ?thesis
  proof (cases "?p w1'")
    case (Inl e)
    then have "?p w2' = Inl e" using o [of w1' w2']
      by (auto simp: observableShots_def split: sum.splits prod.splits)
    with Inl False d1 d2 show ?thesis
      unfolding analyzeRally_def observable_def
      by (simp add: Let_def shots_def [symmetric] rallyStates_def [symmetric]
          features_def [symmetric])
  next
    case (Inr p1)
    obtain as1 v1 where p1: "p1 = (as1, v1)" by force
    obtain as2 v2 where g2: "?p w2' = Inr (as2, v2)"
      using o [of w1' w2'] Inr p1
      by (auto simp: observableShots_def split: sum.splits prod.splits)
    have er: "map eraseShot as1 = map eraseShot as2"
      using o [of w1' w2'] Inr p1 g2 by (simp add: observableShots_def)
    then have len: "length as1 = length as2" using map_eq_imp_length_eq by blast
    show ?thesis
      using False d1 d2 Inr p1 g2 er len
      unfolding analyzeRally_def observable_def eraseOpaque_def buildRallySummary_def
      by (simp add: Let_def shots_def [symmetric] rallyStates_def [symmetric]
          features_def [symmetric] split: prod.splits)
  qed
qed

text \<open>The sample trajectory analysed in two worlds that differ in clock and random values.\<close>

theorem analyzeRally_deterministic_witness:
  "observable (analyzeRally sample_constants sample_imports ''s'' sample_trajectory None None None
                 sample_world)
   = observable (analyzeRally sample_constants sample_imports ''s'' sample_trajectory None None None
                   other_world)"
  using analyzeRally_deterministic [of sample_constants sample_imports "''s''" sample_trajectory
      None None None sample_world other_world]
  by simp

end
